theory Spec2Isabelle
  imports Complex_Main
begin

section \<open>Errors and results\<close>

text \<open>
  The members of the enumeration \<open>ErrorCode\<close> that the preflight service names. The
  enumeration itself is declared outside the files at hand; \<open>OTHER_CODE\<close> stands for any
  further member that an already classified error may carry.
\<close>

datatype ErrorCode = REPO_NOT_FOUND | CONFIG_VALIDATION_FAILED | AUTH_FAILED | OTHER_CODE string

text \<open>
  \<open>new PentestError(message, category, retryable, context, code)\<close>: the record holds the
  constructor's arguments. An omitted context is the empty object, an omitted code is
  \<open>None\<close>.
\<close>

record PentestError =
  message :: string
  category :: string
  retryable :: bool
  errContext :: "(string \<times> string) list"
  code :: "ErrorCode option"

text \<open>Any other \<open>Error\<close> object, read through the fields the executor looks at.\<close>

record JsError =
  ctorName :: string
  errMessage :: string
  errCode :: "string option"
  errStatus :: "nat option"

datatype js_error = PentestErr PentestError | PlainErr JsError

text \<open>A thrown value is an \<open>Error\<close> object or something else, kept as \<open>String(error)\<close>.\<close>

datatype thrown = ErrorObj js_error | NonError string

fun error_message :: "js_error \<Rightarrow> string" where
  "error_message (PentestErr p) = message p"
| "error_message (PlainErr e) = errMessage e"

fun constructor_name :: "js_error \<Rightarrow> string" where
  "constructor_name (PentestErr p) = ''PentestError''"
| "constructor_name (PlainErr e) = ctorName e"

definition new_Error :: "string \<Rightarrow> js_error" where
  "new_Error msg = PlainErr \<lparr>ctorName = ''Error'', errMessage = msg, errCode = None, errStatus = None\<rparr>"

section \<open>Numbers in template strings\<close>

fun show_nat :: "nat \<Rightarrow> string" where
  "show_nat n =
     (if n < 10 then [''0123456789'' ! n]
      else show_nat (n div 10) @ [''0123456789'' ! (n mod 10)])"

declare show_nat.simps [simp del]

definition show_int :: "int \<Rightarrow> string" where
  "show_int i = (if i < 0 then CHR ''-'' # show_nat (nat (- i)) else show_nat (nat i))"

section \<open>The world outside\<close>

datatype 'a nullable = Undefined | Null | Value 'a

record ChatMessage =
  content :: "string nullable"

record Choice =
  choiceMessage :: "ChatMessage option"

record Completion =
  completionModel :: "string option"
  usageTotalTokens :: "nat option"
  choices :: "Choice list option"

text \<open>
  A response of \<open>fetch\<close>: the \<open>ok\<close> flag, the status, and what \<open>text()\<close> and \<open>json()\<close>
  give when awaited (\<open>Inl\<close> when the promise rejects).
\<close>

record Response =
  respOk :: bool
  respStatus :: nat
  respText :: "js_error + string"
  respJson :: "js_error + Completion"

text \<open>
  The POST request to the chat completions endpoint. \<open>maxCompletionTokens\<close> is \<open>None\<close>
  when the number is \<open>NaN\<close>.
\<close>

record Request =
  url :: string
  authorization :: string
  reqModel :: string
  userContent :: string
  maxCompletionTokens :: "nat option"

datatype stat_result = StatThrows | Stats bool

text \<open>
  One line of \<open>error.log\<close>. The error stands for its name, message, code, status and
  stack; the timestamp comes from a helper outside and is left out.
\<close>

record ErrorLogEntry =
  logAgent :: string
  logErr :: js_error
  logSourceDir :: string
  logPrompt :: string
  logRetryable :: bool
  logDuration :: int

text \<open>What a run does to the outside, in order.\<close>

datatype event =
    LogInfo string
  | LogWarn string
  | LogError string
  | FsStat string
  | ParseConfig string
  | Fetch Request
  | ProgressStart
  | ProgressFinish string
  | ProgressStop
  | AuditLlmResponse nat string
  | AuditError js_error int nat
  | ConsoleLog string
  | AppendErrorLog string ErrorLogEntry

text \<open>
  Everything the two services read from outside themselves: the process environment, the
  global loader flag, the file system, the configuration parser, the network, the error
  classifier \<open>isRetryableError\<close>, the text pattern of the billing detection, the clock
  (\<open>dateNow w k\<close> is what the \<open>k\<close>-th \<open>Date.now()\<close> of one call returns), the timer
  (its \<open>startTime\<close> and the duration its \<open>stop()\<close> returns), the execution-context
  detector, \<open>Number\<close> on a string (\<open>None\<close> for \<open>NaN\<close>), the two formatting helpers and
  the validators registered in the table \<open>AGENT_VALIDATORS\<close> (its own properties; a
  validator returns its verdict or throws), and the message the runtime puts into the
  \<open>TypeError\<close> that calling an inherited member of that table raises.
  \<open>fetch\<close> rejects with an \<open>Error\<close> object only; the parser may throw anything.
  \<open>Stats b\<close> is a successful \<open>stat\<close> whose \<open>isDirectory()\<close> is \<open>b\<close>.
  The logger, the progress manager and the audit logger do not throw; their calls are
  recorded as events.
\<close>

record world =
  OPENAI_API_KEY :: "string option"
  OPENAI_MODEL :: "string option"
  OPENAI_MAX_OUTPUT_TOKENS :: "string option"
  SHANNON_DISABLE_LOADER :: "bool option"
  fsStat :: "string \<Rightarrow> stat_result"
  parseConfig :: "string \<Rightarrow> thrown option"
  fetch :: "Request \<Rightarrow> js_error + Response"
  isRetryableError :: "js_error \<Rightarrow> bool"
  spendingCapPattern :: "string \<Rightarrow> bool"
  dateNow :: "nat \<Rightarrow> int"
  timerStartTime :: int
  timerStop :: int
  useCleanOutput :: "string \<Rightarrow> bool"
  toNumber :: "string \<Rightarrow> nat option"
  formatCompletionMessage :: "string \<Rightarrow> nat \<Rightarrow> int \<Rightarrow> string"
  formatErrorOutput :: "js_error \<Rightarrow> string \<Rightarrow> int \<Rightarrow> string \<Rightarrow> bool \<Rightarrow> string list"
  AGENT_VALIDATORS :: "string \<Rightarrow> (string \<Rightarrow> thrown + bool) option"
  typeErrorMessage :: "string \<Rightarrow> string"

text \<open>JavaScript truthiness of an optional string: \<open>undefined\<close> and \<open>''\<close> are falsy.\<close>

fun truthy :: "string option \<Rightarrow> bool" where
  "truthy None = False"
| "truthy (Some s) = (s \<noteq> [])"

text \<open>\<open>a || d\<close> on an optional string.\<close>

fun or_default :: "string option \<Rightarrow> string \<Rightarrow> string" where
  "or_default None d = d"
| "or_default (Some s) d = (if s = [] then d else s)"

section \<open>Preflight validation service\<close>

type_synonym preflight_result = "PentestError + unit"

definition repoError :: "string \<Rightarrow> string \<Rightarrow> PentestError" where
  "repoError msg repoPath =
     \<lparr>message = msg, category = ''config'', retryable = False,
      errContext = [(''repoPath'', repoPath)], code = Some REPO_NOT_FOUND\<rparr>"

definition validateRepo :: "world \<Rightarrow> string \<Rightarrow> event list \<times> preflight_result" where
  "validateRepo w repoPath =
     (let ev1 = [LogInfo ''Checking repository path...'', FsStat repoPath] in
      case fsStat w repoPath of
        StatThrows \<Rightarrow>
          (ev1, Inl (repoError (''Repository path does not exist: '' @ repoPath) repoPath))
      | Stats isDir \<Rightarrow>
          if \<not> isDir then
            (ev1, Inl (repoError (''Repository path is not a directory: '' @ repoPath) repoPath))
          else
            (let ev2 = ev1 @ [FsStat (repoPath @ ''/.git'')] in
             case fsStat w (repoPath @ ''/.git'') of
               StatThrows \<Rightarrow>
                 (ev2, Inl (repoError (''Not a git repository (no .git directory): '' @ repoPath) repoPath))
             | Stats gitIsDir \<Rightarrow>
                 if \<not> gitIsDir then
                   (ev2, Inl (repoError (''Not a git repository (no .git directory): '' @ repoPath) repoPath))
                 else (ev2 @ [LogInfo ''Repository path OK''], Inr ())))"

text \<open>\<open>error instanceof Error ? error.message : String(error)\<close>\<close>

fun thrown_message :: "thrown \<Rightarrow> string" where
  "thrown_message (ErrorObj e) = error_message e"
| "thrown_message (NonError s) = s"

text \<open>The \<open>catch\<close> clause of \<open>validateConfig\<close>.\<close>

fun configFailure :: "string \<Rightarrow> thrown \<Rightarrow> PentestError" where
  "configFailure configPath (ErrorObj (PentestErr p)) = p"
| "configFailure configPath t =
     \<lparr>message = ''Configuration validation failed: '' @ thrown_message t,
      category = ''config'', retryable = False,
      errContext = [(''configPath'', configPath)], code = Some CONFIG_VALIDATION_FAILED\<rparr>"

definition validateConfig :: "world \<Rightarrow> string \<Rightarrow> event list \<times> preflight_result" where
  "validateConfig w configPath =
     (let ev1 = [LogInfo ''Validating configuration file...'', ParseConfig configPath] in
      case parseConfig w configPath of
        None \<Rightarrow> (ev1 @ [LogInfo ''Configuration file OK''], Inr ())
      | Some t \<Rightarrow> (ev1, Inl (configFailure configPath t)))"

definition authType :: string where
  "authType = ''OpenAI API key''"

text \<open>The \<open>catch\<close> clause of \<open>validateCredentials\<close>.\<close>

definition credentialFailure :: "world \<Rightarrow> thrown \<Rightarrow> PentestError" where
  "credentialFailure w t =
     (let msg = thrown_message t;
          r = isRetryableError w (case t of ErrorObj e \<Rightarrow> e | NonError s \<Rightarrow> new_Error msg)
      in \<lparr>message = (if r then ''Failed to reach OpenAI API. Check your network connection.''
                       else authType @ '' validation failed: '' @ msg),
           category = (if r then ''network'' else ''config''),
           retryable = r,
           errContext = [(''authType'', authType)],
           code = (if r then None else Some AUTH_FAILED)\<rparr>)"

definition apiError :: "Response \<Rightarrow> string \<Rightarrow> js_error" where
  "apiError resp errorText =
     new_Error (''OpenAI API error ('' @ show_nat (respStatus resp) @ ''): '' @ errorText)"

text \<open>
  The request of the credential check. It is built only after the key was found truthy,
  so \<open>or_default\<close> returns the key itself here.
\<close>

definition pingRequest :: "world \<Rightarrow> Request" where
  "pingRequest w =
     \<lparr>url = ''https://api.openai.com/v1/chat/completions'',
      authorization = ''Bearer '' @ or_default (OPENAI_API_KEY w) [],
      reqModel = or_default (OPENAI_MODEL w) ''gpt-4.1-mini'',
      userContent = ''ping'',
      maxCompletionTokens = Some 16\<rparr>"

definition validateCredentials :: "world \<Rightarrow> event list \<times> preflight_result" where
  "validateCredentials w =
     (if \<not> truthy (OPENAI_API_KEY w) then
        ([], Inl \<lparr>message = ''No API credentials found. Set OPENAI_API_KEY in .env'',
                  category = ''config'', retryable = False, errContext = [],
                  code = Some AUTH_FAILED\<rparr>)
      else
        (let ev1 = [LogInfo (''Validating '' @ authType @ ''...''), Fetch (pingRequest w)] in
         case fetch w (pingRequest w) of
           Inl e \<Rightarrow> (ev1, Inl (credentialFailure w (ErrorObj e)))
         | Inr resp \<Rightarrow>
             if \<not> respOk resp then
               (case respText resp of
                  Inl e \<Rightarrow> (ev1, Inl (credentialFailure w (ErrorObj e)))
                | Inr errorText \<Rightarrow>
                    (ev1, Inl (credentialFailure w (ErrorObj (apiError resp errorText)))))
             else (ev1 @ [LogInfo (authType @ '' OK'')], Inr ())))"

definition runPreflightChecks :: "world \<Rightarrow> string \<Rightarrow> string option \<Rightarrow> event list \<times> preflight_result" where
  "runPreflightChecks w repoPath configPath =
     (case validateRepo w repoPath of
        (evR, Inl e) \<Rightarrow> (evR, Inl e)
      | (evR, Inr _) \<Rightarrow>
          (case (case configPath of
                   None \<Rightarrow> ([], Inr ())
                 | Some c \<Rightarrow> if c \<noteq> [] then validateConfig w c else ([], Inr ())) of
             (evC, Inl e) \<Rightarrow> (evR @ evC, Inl e)
           | (evC, Inr _) \<Rightarrow>
               (case validateCredentials w of
                  (evK, Inl e) \<Rightarrow> (evR @ evC @ evK, Inl e)
                | (evK, Inr _) \<Rightarrow>
                    (evR @ evC @ evK @ [LogInfo ''All preflight checks passed''], Inr ()))))"

section \<open>Billing detection\<close>

text \<open>
  Modelled from the spec: the function \<open>isSpendingCapBehavior\<close> of
  \<open>utils/billing-detection\<close> is imported by the executor and its body is not at hand.
  The spec: it triggers when turnCount > 0 AND cost == 0 AND resultText matches the
  degenerate pattern. The pattern is the first argument.
\<close>

definition isSpendingCapBehavior :: "(string \<Rightarrow> bool) \<Rightarrow> nat \<Rightarrow> rat \<Rightarrow> string \<Rightarrow> bool" where
  "isSpendingCapBehavior pat turnCount cost resultText =
     (turnCount > 0 \<and> cost = 0 \<and> pat resultText)"

section \<open>Agent execution\<close>

record ClaudePromptResult =
  result :: "string nullable"
  success :: bool
  duration :: int
  turns :: "nat option"
  cost :: rat
  model :: "string option"
  partialCost :: "rat option"
  apiErrorDetected :: "bool option"
  error :: "string option"
  errorType :: "string option"
  prompt :: "string option"
  resRetryable :: "bool option"

record MessageLoopResult =
  mlTurnCount :: nat
  mlResult :: "string option"
  mlApiErrorDetected :: bool
  mlCost :: rat
  mlModel :: "string option"

text \<open>\<open>completion.choices?.[0]?.message?.content ?? ''\<close>\<close>

definition firstContent :: "Completion \<Rightarrow> string nullable" where
  "firstContent c =
     (case choices c of
        None \<Rightarrow> Undefined
      | Some [] \<Rightarrow> Undefined
      | Some (ch # _) \<Rightarrow>
          (case choiceMessage ch of None \<Rightarrow> Undefined | Some m \<Rightarrow> content m))"

fun orEmpty :: "string nullable \<Rightarrow> string" where
  "orEmpty (Value s) = s"
| "orEmpty _ = []"

definition completionRequest :: "world \<Rightarrow> string \<Rightarrow> string \<Rightarrow> nat option \<Rightarrow> Request" where
  "completionRequest w fullPrompt optModel optMaxOutputTokens =
     \<lparr>url = ''https://api.openai.com/v1/chat/completions'',
      authorization = ''Bearer '' @ or_default (OPENAI_API_KEY w) [],
      reqModel = optModel,
      userContent = fullPrompt,
      maxCompletionTokens = optMaxOutputTokens\<rparr>"

definition HEARTBEAT_INTERVAL :: int where
  "HEARTBEAT_INTERVAL = 30000"

text \<open>
  The two readings of \<open>Date.now()\<close> that open \<open>processMessageStream\<close>, and the status
  line that depends on them. \<open>Math.floor\<close> of the quotient is \<open>div\<close> on integers.
\<close>

definition heartbeat :: "world \<Rightarrow> string \<Rightarrow> event list" where
  "heartbeat w description =
     (let lastHeartbeat = dateNow w 0;
          now = dateNow w 1
      in if SHANNON_DISABLE_LOADER w = Some True \<and> now - lastHeartbeat > HEARTBEAT_INTERVAL then
           [LogInfo (''['' @ show_int ((now - timerStartTime w) div 1000) @ ''s] ''
                     @ description @ '' running...'')]
         else [])"

definition processMessageStream ::
  "world \<Rightarrow> string \<Rightarrow> string \<Rightarrow> nat option \<Rightarrow> string \<Rightarrow> event list \<times> (js_error + MessageLoopResult)" where
  "processMessageStream w fullPrompt optModel optMaxOutputTokens description =
     (let req = completionRequest w fullPrompt optModel optMaxOutputTokens;
          ev1 = heartbeat w description @ [Fetch req]
      in case fetch w req of
           Inl e \<Rightarrow> (ev1, Inl e)
         | Inr resp \<Rightarrow>
             if \<not> respOk resp then
               (case respText resp of
                  Inl e \<Rightarrow> (ev1, Inl e)
                | Inr errorText \<Rightarrow> (ev1, Inl (apiError resp errorText)))
             else
               (case respJson resp of
                  Inl e \<Rightarrow> (ev1, Inl e)
                | Inr completion \<Rightarrow>
                    (let turnCount = 1;
                         res = orEmpty (firstContent completion);
                         mdl = or_default (completionModel completion) optModel
                     in (ev1 @ [AuditLlmResponse turnCount res],
                         Inr \<lparr>mlTurnCount = turnCount, mlResult = Some res,
                              mlApiErrorDetected = False, mlCost = 0, mlModel = Some mdl\<rparr>))))"

definition spendingCapError :: "nat \<Rightarrow> string option \<Rightarrow> js_error" where
  "spendingCapError turnCount res =
     PentestErr
       \<lparr>message = ''Spending cap likely reached (turns='' @ show_nat turnCount @ '', cost=$0): ''
                  @ (case res of None \<Rightarrow> ''undefined'' | Some s \<Rightarrow> take 100 s),
        category = ''billing'', retryable = True, errContext = [], code = None\<rparr>"

text \<open>
  The \<open>try\<close> block of \<open>runClaudePrompt\<close>. When it throws, the values that the variables
  \<open>turnCount\<close> and \<open>totalCost\<close> of the enclosing function hold at that moment go with the
  error, since the \<open>catch\<close> clause reads them.
\<close>

definition runClaudePrompt_try ::
  "world \<Rightarrow> string \<Rightarrow> string \<Rightarrow> nat option \<Rightarrow> string
     \<Rightarrow> event list \<times> (js_error \<times> nat \<times> rat + ClaudePromptResult)" where
  "runClaudePrompt_try w fullPrompt optModel optMaxOutputTokens description =
     (case processMessageStream w fullPrompt optModel optMaxOutputTokens description of
        (evM, Inl e) \<Rightarrow> (evM, Inl (e, 0, 0))
      | (evM, Inr m) \<Rightarrow>
          (let turnCount = mlTurnCount m;
               res = mlResult m;
               totalCost = mlCost m
           in if isSpendingCapBehavior (spendingCapPattern w) turnCount totalCost
                   (case res of None \<Rightarrow> [] | Some s \<Rightarrow> s) then
                (evM, Inl (spendingCapError turnCount res, turnCount, totalCost))
              else
                (let dur = timerStop w in
                 (evM
                  @ (if mlApiErrorDetected m then
                       [LogWarn (''API Error detected in '' @ description
                                 @ '' - will validate deliverables before failing'')]
                     else [])
                  @ [ProgressFinish (formatCompletionMessage w description turnCount dur)],
                  Inr \<lparr>result = (case res of None \<Rightarrow> Null | Some s \<Rightarrow> Value s),
                       success = True, duration = dur, turns = Some turnCount,
                       cost = totalCost, model = mlModel m, partialCost = Some totalCost,
                       apiErrorDetected = Some (mlApiErrorDetected m),
                       error = None, errorType = None, prompt = None,
                       resRetryable = None\<rparr>))))"

text \<open>
  \<open>writeErrorLog\<close>: one append to \<open>path.join(sourceDir, 'error.log')\<close>; whatever fails
  inside is swallowed, so the only trace is the attempt.
\<close>

definition writeErrorLog :: "world \<Rightarrow> js_error \<Rightarrow> string \<Rightarrow> string \<Rightarrow> int \<Rightarrow> event list" where
  "writeErrorLog w err sourceDir fullPrompt dur =
     [AppendErrorLog sourceDir
        \<lparr>logAgent = ''claude-executor'', logErr = err, logSourceDir = sourceDir,
         logPrompt = take 200 fullPrompt @ ''...'',
         logRetryable = isRetryableError w err, logDuration = dur\<rparr>]"

definition missingKeyError :: js_error where
  "missingKeyError =
     PentestErr
       \<lparr>message = ''OPENAI_API_KEY is not set. Configure OpenAI credentials before running agents.'',
        category = ''config'', retryable = False, errContext = [], code = None\<rparr>"

text \<open>
  \<open>runClaudePrompt(prompt, sourceDir, context, description, ...)\<close>. \<open>Inl\<close> is an error
  thrown to the caller (the promise rejects), \<open>Inr\<close> the result the promise resolves to.
  The agent name is unused by the source; the audit session only decides whether the
  audit logger's calls are no-ops and is left out.
\<close>

definition composePrompt :: "string \<Rightarrow> string \<Rightarrow> string" where
  "composePrompt ctxt prmpt = (if ctxt \<noteq> [] then ctxt @ [CHR 0x0A, CHR 0x0A] @ prmpt else prmpt)"

definition optionsModel :: "world \<Rightarrow> string" where
  "optionsModel w = or_default (OPENAI_MODEL w) ''gpt-4.1''"

definition optionsMaxOutputTokens :: "world \<Rightarrow> nat option" where
  "optionsMaxOutputTokens w = toNumber w (or_default (OPENAI_MAX_OUTPUT_TOKENS w) ''64000'')"

definition runClaudePrompt ::
  "world \<Rightarrow> string \<Rightarrow> string \<Rightarrow> string \<Rightarrow> string \<Rightarrow> event list \<times> (js_error + ClaudePromptResult)" where
  "runClaudePrompt w prmpt sourceDir ctxt description =
     (let fullPrompt = composePrompt ctxt prmpt;
          clean = useCleanOutput w description;
          ev0 = [LogInfo (''Running Claude Code: '' @ description @ ''...'')]
      in if \<not> truthy (OPENAI_API_KEY w) then (ev0, Inl missingKeyError)
         else
           (let ev1 = ev0
                  @ (if \<not> clean then
                       [LogInfo (''OpenAI Options: model='' @ optionsModel w @ '', cwd='' @ sourceDir)]
                     else [])
                  @ [ProgressStart]
            in case runClaudePrompt_try w fullPrompt (optionsModel w) (optionsMaxOutputTokens w)
                      description of
                 (evT, Inr r) \<Rightarrow> (ev1 @ evT, Inr r)
               | (evT, Inl (err, turnCount, totalCost)) \<Rightarrow>
                   (let dur = timerStop w in
                    (ev1 @ evT
                     @ [AuditError err dur turnCount, ProgressStop]
                     @ map ConsoleLog
                         (formatErrorOutput w err description dur sourceDir (isRetryableError w err))
                     @ writeErrorLog w err sourceDir fullPrompt dur,
                     Inr \<lparr>result = Undefined, success = False, duration = dur, turns = None,
                          cost = totalCost, model = None, partialCost = None,
                          apiErrorDetected = None,
                          error = Some (error_message err),
                          errorType = Some (constructor_name err),
                          prompt = Some (take 100 fullPrompt @ ''...''),
                          resRetryable = Some (isRetryableError w err)\<rparr>))))"

text \<open>\<open>${agentName}\<close> in a template string.\<close>

fun show_agent :: "string option \<Rightarrow> string" where
  "show_agent None = ''null''"
| "show_agent (Some a) = a"

fun truthy_nullable :: "string nullable \<Rightarrow> bool" where
  "truthy_nullable (Value s) = (s \<noteq> [])"
| "truthy_nullable _ = False"

text \<open>
  \<open>AGENT_VALIDATORS[agentName]\<close>. The table is an ordinary object, so indexing it finds
  the validator registered under the name or, failing that, the member of
  \<open>Object.prototype\<close> of that name. Every such member is an object or a function,
  hence truthy.
\<close>

datatype table_property = Registered "string \<Rightarrow> thrown + bool" | Inherited string

definition Object_prototype_members :: "string list" where
  "Object_prototype_members =
     [''constructor'', ''__proto__'', ''__defineGetter__'', ''__defineSetter__'',
      ''__lookupGetter__'', ''__lookupSetter__'', ''hasOwnProperty'', ''isPrototypeOf'',
      ''propertyIsEnumerable'', ''toLocaleString'', ''toString'', ''valueOf'']"

definition indexValidators :: "world \<Rightarrow> string \<Rightarrow> table_property option" where
  "indexValidators w a =
     (case AGENT_VALIDATORS w a of
        Some v \<Rightarrow> Some (Registered v)
      | None \<Rightarrow> if a \<in> set Object_prototype_members then Some (Inherited a) else None)"

text \<open>
  \<open>validator(sourceDir, logger)\<close> on an inherited member: a plain call in module code,
  so \<open>this\<close> is \<open>undefined\<close>. \<open>Object(sourceDir, logger)\<close> returns a wrapper object and
  \<open>toString\<close> returns \<open>[object Undefined]\<close>, both truthy; \<open>isPrototypeOf\<close> returns
  \<open>false\<close> for an argument that is not an object; \<open>__proto__\<close> yields the prototype
  object, which is not callable, and every other member converts \<open>this\<close> to an object
  first: these throw a \<open>TypeError\<close>. The verdict \<open>True\<close> stands for a truthy value.
\<close>

definition callInherited :: "world \<Rightarrow> string \<Rightarrow> string \<Rightarrow> thrown + bool" where
  "callInherited w member sourceDir =
     (if member = ''constructor'' \<or> member = ''toString'' then Inr True
      else if member = ''isPrototypeOf'' then Inr False
      else Inl (ErrorObj (PlainErr \<lparr>ctorName = ''TypeError'',
                                    errMessage = typeErrorMessage w member,
                                    errCode = None, errStatus = None\<rparr>)))"

fun callProperty :: "world \<Rightarrow> table_property \<Rightarrow> string \<Rightarrow> thrown + bool" where
  "callProperty w (Registered validator) sourceDir = validator sourceDir"
| "callProperty w (Inherited member) sourceDir = callInherited w member sourceDir"

text \<open>
  \<open>validateAgentOutput(result, agentName, sourceDir, logger)\<close>; \<open>agentName\<close> is a string
  or \<open>null\<close>.
\<close>

definition validateAgentOutput ::
  "world \<Rightarrow> ClaudePromptResult \<Rightarrow> string option \<Rightarrow> string \<Rightarrow> event list \<times> bool" where
  "validateAgentOutput w res agentName sourceDir =
     (let ev0 = [LogInfo (''Validating '' @ show_agent agentName @ '' agent output'')] in
      if \<not> success res \<or> \<not> truthy_nullable (result res) then
        (ev0 @ [LogError ''Validation failed: Agent execution was unsuccessful''], False)
      else
        (case (case agentName of
                 None \<Rightarrow> None
               | Some a \<Rightarrow> if a \<noteq> [] then indexValidators w a else None) of
           None \<Rightarrow>
             (ev0 @ [LogWarn (''No validator found for agent '' @ [CHR 0x22] @ show_agent agentName
                              @ [CHR 0x22] @ '' - assuming success''),
                     LogInfo ''Validation passed: Unknown agent with successful result''],
              True)
         | Some validator \<Rightarrow>
             (let ev1 = ev0 @ [LogInfo (''Using validator for agent: '' @ show_agent agentName)] in
              case callProperty w validator sourceDir of
                Inl t \<Rightarrow>
                  (ev1 @ [LogError (''Validation failed with error: '' @ thrown_message t)], False)
              | Inr validationResult \<Rightarrow>
                  (ev1 @ [if validationResult then
                            LogInfo ''Validation passed: Required files/structure present''
                          else LogError ''Validation failed: Missing required deliverable files''],
                   validationResult))))"

section \<open>Concrete worlds\<close>

text \<open>
  A world in which everything is in order: a git repository at \<open>/repo\<close>, a configuration
  file \<open>good.yaml\<close> that parses, an API key, and an endpoint that answers \<open>pong\<close>.
  Network failures of \<open>fetch\<close> are \<open>TypeError\<close>s, which this world's classifier takes for
  retryable, as it does an error that says so itself.
\<close>

definition pongCompletion :: Completion where
  "pongCompletion =
     \<lparr>completionModel = Some ''gpt-4.1-2025'', usageTotalTokens = Some 9,
      choices = Some [\<lparr>choiceMessage = Some \<lparr>content = Value ''pong''\<rparr>\<rparr>]\<rparr>"

definition okResponse :: Response where
  "okResponse =
     \<lparr>respOk = True, respStatus = 200, respText = Inr ''{}'', respJson = Inr pongCompletion\<rparr>"

definition goodWorld :: world where
  "goodWorld =
     \<lparr>OPENAI_API_KEY = Some ''sk-test'', OPENAI_MODEL = None, OPENAI_MAX_OUTPUT_TOKENS = None,
      SHANNON_DISABLE_LOADER = Some True,
      fsStat = (\<lambda>p. if p = ''/repo'' \<or> p = ''/repo/.git'' \<or> p = ''/plain'' then Stats True
                     else if p = ''/repo/README'' then Stats False else StatThrows),
      parseConfig = (\<lambda>p. if p = ''good.yaml'' then None
                          else Some (ErrorObj (new_Error ''unknown key''))),
      fetch = (\<lambda>r. Inr okResponse),
      isRetryableError = (\<lambda>e. case e of PentestErr p \<Rightarrow> retryable p
                                         | PlainErr j \<Rightarrow> ctorName j = ''TypeError''),
      spendingCapPattern = (\<lambda>s. s = ''spending cap reached''),
      dateNow = (\<lambda>k. 1000),
      timerStartTime = 1000,
      timerStop = 250,
      useCleanOutput = (\<lambda>d. False),
      toNumber = (\<lambda>s. if s = ''64000'' then Some 64000 else None),
      formatCompletionMessage = (\<lambda>d t ms. d @ '' done''),
      formatErrorOutput = (\<lambda>e d ms dir r. [d @ '' failed: '' @ error_message e]),
      AGENT_VALIDATORS = (\<lambda>a. if a = ''recon'' then Some (\<lambda>dir. Inr (dir = ''/repo'')) else None),
      typeErrorMessage = (\<lambda>m. if m = ''__proto__'' then ''validator is not a function''
                               else ''Cannot convert undefined or null to object'')\<rparr>"

text \<open>The same world without an API key.\<close>

definition noKeyWorld :: world where
  "noKeyWorld = goodWorld\<lparr>OPENAI_API_KEY := None\<rparr>"

text \<open>The network is down: \<open>fetch\<close> rejects.\<close>

definition fetchFailed :: js_error where
  "fetchFailed =
     PlainErr \<lparr>ctorName = ''TypeError'', errMessage = ''fetch failed'', errCode = None,
               errStatus = None\<rparr>"

definition offlineWorld :: world where
  "offlineWorld = goodWorld\<lparr>fetch := (\<lambda>r. Inl fetchFailed)\<rparr>"

text \<open>The endpoint rejects the key with status 401.\<close>

definition unauthorizedResponse :: Response where
  "unauthorizedResponse =
     \<lparr>respOk = False, respStatus = 401, respText = Inr ''invalid api key'',
      respJson = Inl (new_Error ''not json'')\<rparr>"

definition unauthorizedWorld :: world where
  "unauthorizedWorld = goodWorld\<lparr>fetch := (\<lambda>r. Inr unauthorizedResponse)\<rparr>"

text \<open>The endpoint answers with the placeholder text of this world's billing pattern.\<close>

definition cappedCompletion :: Completion where
  "cappedCompletion =
     \<lparr>completionModel = None, usageTotalTokens = None,
      choices = Some [\<lparr>choiceMessage = Some \<lparr>content = Value ''spending cap reached''\<rparr>\<rparr>]\<rparr>"

definition cappedWorld :: world where
  "cappedWorld =
     goodWorld\<lparr>fetch := (\<lambda>r. Inr (okResponse\<lparr>respJson := Inr cappedCompletion\<rparr>))\<rparr>"

text \<open>Forty seconds pass between the two readings of the clock.\<close>

definition slowClockWorld :: world where
  "slowClockWorld = goodWorld\<lparr>dateNow := (\<lambda>k. if k = 0 then 0 else 40000)\<rparr>"

text \<open>The parser throws an error that is already classified.\<close>

definition typedParserError :: PentestError where
  "typedParserError =
     \<lparr>message = ''rules.avoid[0].type is not a rule type'', category = ''validation'',
      retryable = False, errContext = [], code = Some (OTHER_CODE ''CONFIG_SCHEMA'')\<rparr>"

definition typedParserWorld :: world where
  "typedParserWorld =
     goodWorld\<lparr>parseConfig := (\<lambda>p. Some (ErrorObj (PentestErr typedParserError)))\<rparr>"

definition successResult :: ClaudePromptResult where
  "successResult =
     \<lparr>result = Value ''pong'', success = True, duration = 250, turns = Some 1, cost = 0,
      model = Some ''gpt-4.1-2025'', partialCost = Some 0, apiErrorDetected = Some False,
      error = None, errorType = None, prompt = None, resRetryable = None\<rparr>"

section \<open>Preflight: what each check returns\<close>

lemma validateRepo_no_later_events:
  "\<forall>e \<in> set (fst (validateRepo w repoPath)). (\<forall>c. e \<noteq> ParseConfig c) \<and> (\<forall>r. e \<noteq> Fetch r)"
  by (auto simp: validateRepo_def Let_def split: stat_result.splits)

lemma validateConfig_no_fetch:
  "\<forall>e \<in> set (fst (validateConfig w c)). \<forall>r. e \<noteq> Fetch r"
  by (auto simp: validateConfig_def Let_def split: option.splits)

text \<open>
  C4. Whenever \<open>stat\<close> of the repository path fails or does not report a directory, or
  \<open>stat\<close> of its \<open>.git\<close> entry fails or does not report a directory, the repository check
  returns a failure of category config, not retryable, with code \<open>REPO_NOT_FOUND\<close>.
\<close>

theorem validateRepo_failure:
  assumes "fsStat w repoPath = StatThrows \<or> fsStat w repoPath = Stats False
           \<or> fsStat w (repoPath @ ''/.git'') = StatThrows
           \<or> fsStat w (repoPath @ ''/.git'') = Stats False"
  shows "\<exists>e. snd (validateRepo w repoPath) = Inl e \<and> category e = ''config''
              \<and> retryable e = False \<and> code e = Some REPO_NOT_FOUND"
  using assms
  by (auto simp: validateRepo_def repoError_def Let_def split: stat_result.splits)

theorem validateRepo_failure_witness:
  "(\<exists>e. snd (validateRepo goodWorld ''/missing'') = Inl e \<and> category e = ''config''
              \<and> retryable e = False \<and> code e = Some REPO_NOT_FOUND)
   \<and> (\<exists>e. snd (validateRepo goodWorld ''/plain'') = Inl e \<and> category e = ''config''
              \<and> retryable e = False \<and> code e = Some REPO_NOT_FOUND)
   \<and> fsStat goodWorld ''/missing'' = StatThrows
   \<and> fsStat goodWorld (''/plain'' @ ''/.git'') = StatThrows"
  using validateRepo_failure [of goodWorld "''/missing''"]
    validateRepo_failure [of goodWorld "''/plain''"]
  by (simp add: goodWorld_def)

text \<open>
  C6. Without an API key in the environment the credential check returns at once a failure
  of category config, not retryable, with code \<open>AUTH_FAILED\<close>; it does nothing else, so no
  request is sent.
\<close>

theorem validateCredentials_missing_key:
  assumes "\<not> truthy (OPENAI_API_KEY w)"
  shows "fst (validateCredentials w) = []
         \<and> (\<exists>e. snd (validateCredentials w) = Inl e \<and> category e = ''config''
                 \<and> retryable e = False \<and> code e = Some AUTH_FAILED)"
  using assms by (simp add: validateCredentials_def)

theorem validateCredentials_missing_key_witness:
  "\<not> truthy (OPENAI_API_KEY noKeyWorld)
   \<and> fst (validateCredentials noKeyWorld) = []
   \<and> (\<exists>e. snd (validateCredentials noKeyWorld) = Inl e \<and> category e = ''config''
           \<and> retryable e = False \<and> code e = Some AUTH_FAILED)"
  using validateCredentials_missing_key [of noKeyWorld]
  by (simp add: noKeyWorld_def)

text \<open>
  C7. Whatever the configuration parser throws comes back as a failure: a \<open>PentestError\<close>
  unchanged, anything else wrapped with category config, not retryable, code
  \<open>CONFIG_VALIDATION_FAILED\<close>.
\<close>

theorem validateConfig_failure:
  assumes "parseConfig w configPath = Some t"
  shows "\<exists>e. snd (validateConfig w configPath) = Inl e
           \<and> (case t of
                 ErrorObj (PentestErr p) \<Rightarrow> e = p
               | _ \<Rightarrow> category e = ''config'' \<and> retryable e = False
                       \<and> code e = Some CONFIG_VALIDATION_FAILED)"
  using assms
  by (cases "(configPath, t)" rule: configFailure.cases)
     (auto simp: validateConfig_def)

theorem validateConfig_failure_witness:
  "parseConfig goodWorld ''bad.yaml'' = Some (ErrorObj (new_Error ''unknown key''))
   \<and> (\<exists>e. snd (validateConfig goodWorld ''bad.yaml'') = Inl e
           \<and> category e = ''config'' \<and> retryable e = False
           \<and> code e = Some CONFIG_VALIDATION_FAILED)
   \<and> parseConfig typedParserWorld ''bad.yaml'' = Some (ErrorObj (PentestErr typedParserError))
   \<and> snd (validateConfig typedParserWorld ''bad.yaml'') = Inl typedParserError"
  using validateConfig_failure [of goodWorld "''bad.yaml''" "ErrorObj (new_Error ''unknown key'')"]
    validateConfig_failure
      [of typedParserWorld "''bad.yaml''" "ErrorObj (PentestErr typedParserError)"]
  by (simp add: goodWorld_def typedParserWorld_def new_Error_def)

lemma credentialFailure_shape:
  "(if isRetryableError w err then
      message (credentialFailure w (ErrorObj err))
        = ''Failed to reach OpenAI API. Check your network connection.''
      \<and> category (credentialFailure w (ErrorObj err)) = ''network''
      \<and> retryable (credentialFailure w (ErrorObj err)) = True
      \<and> code (credentialFailure w (ErrorObj err)) = None
    else
      category (credentialFailure w (ErrorObj err)) = ''config''
      \<and> retryable (credentialFailure w (ErrorObj err)) = False
      \<and> code (credentialFailure w (ErrorObj err)) = Some AUTH_FAILED)"
  by (simp add: credentialFailure_def Let_def)

text \<open>
  C5. When the minimal completion request of the credential check fails (\<open>fetch\<close> rejects,
  or the response is not \<open>ok\<close>, which throws an error made of the status and the body, or
  reading that body rejects), the error \<open>err\<close> is reclassified: if \<open>isRetryableError\<close> holds
  of it, the failure has the generic network message, category network, retryable, no
  code; otherwise category config, not retryable, code \<open>AUTH_FAILED\<close>.
\<close>

theorem validateCredentials_request_failure:
  assumes "truthy (OPENAI_API_KEY w)"
    and "fetch w (pingRequest w) = Inl err
         \<or> (\<exists>resp. fetch w (pingRequest w) = Inr resp \<and> \<not> respOk resp
                \<and> (respText resp = Inl err
                     \<or> (\<exists>errorText. respText resp = Inr errorText
                                       \<and> err = apiError resp errorText)))"
  shows "\<exists>e. snd (validateCredentials w) = Inl e
           \<and> (if isRetryableError w err then
                  message e = ''Failed to reach OpenAI API. Check your network connection.''
                  \<and> category e = ''network'' \<and> retryable e = True \<and> code e = None
                else
                  category e = ''config'' \<and> retryable e = False \<and> code e = Some AUTH_FAILED)"
proof -
  have "snd (validateCredentials w) = Inl (credentialFailure w (ErrorObj err))"
    using assms by (auto simp: validateCredentials_def Let_def)
  then show ?thesis
    using credentialFailure_shape [of w err]
    by (intro exI [of _ "credentialFailure w (ErrorObj err)"] conjI) assumption+
qed

theorem validateCredentials_request_failure_witness:
  "truthy (OPENAI_API_KEY offlineWorld)
   \<and> fetch offlineWorld (pingRequest offlineWorld) = Inl fetchFailed
   \<and> isRetryableError offlineWorld fetchFailed
   \<and> (\<exists>e. snd (validateCredentials offlineWorld) = Inl e
          \<and> message e = ''Failed to reach OpenAI API. Check your network connection.''
          \<and> category e = ''network'' \<and> retryable e = True \<and> code e = None)
   \<and> truthy (OPENAI_API_KEY unauthorizedWorld)
   \<and> fetch unauthorizedWorld (pingRequest unauthorizedWorld) = Inr unauthorizedResponse
   \<and> \<not> respOk unauthorizedResponse
   \<and> respText unauthorizedResponse = Inr ''invalid api key''
   \<and> \<not> isRetryableError unauthorizedWorld (apiError unauthorizedResponse ''invalid api key'')
   \<and> (\<exists>e. snd (validateCredentials unauthorizedWorld) = Inl e
          \<and> category e = ''config'' \<and> retryable e = False \<and> code e = Some AUTH_FAILED)"
  using validateCredentials_request_failure [of offlineWorld fetchFailed]
    validateCredentials_request_failure
      [of unauthorizedWorld "apiError unauthorizedResponse ''invalid api key''"]
  by (simp add: offlineWorld_def unauthorizedWorld_def goodWorld_def fetchFailed_def
        unauthorizedResponse_def apiError_def new_Error_def)

text \<open>
  C3. The orchestrator returns the failure of the first check that fails, and nothing of a
  later check happens. If the repository check fails, the whole run is that check alone:
  the parser is not called and no request is sent. If the repository check passes and the
  check of a supplied configuration path fails, the run is these two checks and no request
  is sent. If both pass (or no configuration path is supplied), a failure of the
  credential check is what comes back.
\<close>

theorem runPreflightChecks_first_failure:
  "(\<forall>e. snd (validateRepo w repoPath) = Inl e \<longrightarrow>
      runPreflightChecks w repoPath configPath = validateRepo w repoPath
      \<and> (\<forall>ev \<in> set (fst (runPreflightChecks w repoPath configPath)).
            (\<forall>c. ev \<noteq> ParseConfig c) \<and> (\<forall>r. ev \<noteq> Fetch r)))
   \<and> (\<forall>c e. snd (validateRepo w repoPath) = Inr () \<and> configPath = Some c \<and> c \<noteq> []
            \<and> snd (validateConfig w c) = Inl e \<longrightarrow>
      runPreflightChecks w repoPath configPath
        = (fst (validateRepo w repoPath) @ fst (validateConfig w c), Inl e)
      \<and> (\<forall>ev \<in> set (fst (runPreflightChecks w repoPath configPath)). \<forall>r. ev \<noteq> Fetch r))
   \<and> (\<forall>e. snd (validateRepo w repoPath) = Inr ()
            \<and> (case configPath of
                  None \<Rightarrow> True
                | Some c \<Rightarrow> c = [] \<or> snd (validateConfig w c) = Inr ())
            \<and> snd (validateCredentials w) = Inl e \<longrightarrow>
      snd (runPreflightChecks w repoPath configPath) = Inl e)"
proof (intro conjI allI impI)
  fix e assume "snd (validateRepo w repoPath) = Inl e"
  then show eq: "runPreflightChecks w repoPath configPath = validateRepo w repoPath"
    by (cases "validateRepo w repoPath") (simp add: runPreflightChecks_def)
  show "\<forall>ev \<in> set (fst (runPreflightChecks w repoPath configPath)).
            (\<forall>c. ev \<noteq> ParseConfig c) \<and> (\<forall>r. ev \<noteq> Fetch r)"
    unfolding eq by (rule validateRepo_no_later_events)
next
  fix c e
  assume h: "snd (validateRepo w repoPath) = Inr () \<and> configPath = Some c \<and> c \<noteq> []
            \<and> snd (validateConfig w c) = Inl e"
  then show eq: "runPreflightChecks w repoPath configPath
        = (fst (validateRepo w repoPath) @ fst (validateConfig w c), Inl e)"
    by (cases "validateRepo w repoPath"; cases "validateConfig w c")
       (simp add: runPreflightChecks_def)
  show "\<forall>ev \<in> set (fst (runPreflightChecks w repoPath configPath)). \<forall>r. ev \<noteq> Fetch r"
    unfolding eq using validateRepo_no_later_events [of w repoPath] validateConfig_no_fetch [of w c]
    by auto
next
  fix e
  assume h: "snd (validateRepo w repoPath) = Inr ()
            \<and> (case configPath of
                  None \<Rightarrow> True
                | Some c \<Rightarrow> c = [] \<or> snd (validateConfig w c) = Inr ())
            \<and> snd (validateCredentials w) = Inl e"
  show "snd (runPreflightChecks w repoPath configPath) = Inl e"
  proof (cases configPath)
    case None
    with h show ?thesis
      by (cases "validateRepo w repoPath"; cases "validateCredentials w")
         (simp add: runPreflightChecks_def)
  next
    case (Some c)
    with h show ?thesis
      by (cases "validateRepo w repoPath"; cases "validateCredentials w";
          cases "validateConfig w c")
         (auto simp: runPreflightChecks_def)
  qed
qed

theorem runPreflightChecks_first_failure_witness:
  "snd (validateRepo goodWorld ''/missing'')
     = Inl (repoError ''Repository path does not exist: /missing'' ''/missing'')
   \<and> runPreflightChecks goodWorld ''/missing'' (Some ''bad.yaml'')
       = validateRepo goodWorld ''/missing''
   \<and> snd (validateRepo goodWorld ''/repo'') = Inr ()
   \<and> snd (validateConfig goodWorld ''bad.yaml'')
       = Inl (configFailure ''bad.yaml'' (ErrorObj (new_Error ''unknown key'')))
   \<and> runPreflightChecks goodWorld ''/repo'' (Some ''bad.yaml'')
       = (fst (validateRepo goodWorld ''/repo'') @ fst (validateConfig goodWorld ''bad.yaml''),
          Inl (configFailure ''bad.yaml'' (ErrorObj (new_Error ''unknown key''))))
   \<and> fst (runPreflightChecks goodWorld ''/repo'' (Some ''bad.yaml''))
       = [LogInfo ''Checking repository path...'', FsStat ''/repo'', FsStat ''/repo/.git'',
          LogInfo ''Repository path OK'', LogInfo ''Validating configuration file...'',
          ParseConfig ''bad.yaml'']
   \<and> snd (validateRepo noKeyWorld ''/repo'') = Inr ()
   \<and> snd (runPreflightChecks noKeyWorld ''/repo'' None) = snd (validateCredentials noKeyWorld)"
proof -
  have r3: "snd (validateRepo noKeyWorld ''/repo'') = Inr ()"
    by (simp add: validateRepo_def noKeyWorld_def goodWorld_def)
  have k3: "snd (validateCredentials noKeyWorld)
            = Inl \<lparr>message = ''No API credentials found. Set OPENAI_API_KEY in .env'',
                   category = ''config'', retryable = False, errContext = [],
                   code = Some AUTH_FAILED\<rparr>"
    by (simp add: validateCredentials_def noKeyWorld_def goodWorld_def)
  have r1: "snd (validateRepo goodWorld ''/missing'')
     = Inl (repoError ''Repository path does not exist: /missing'' ''/missing'')"
    by (simp add: validateRepo_def goodWorld_def)
  have r2: "validateRepo goodWorld ''/repo''
     = ([LogInfo ''Checking repository path...'', FsStat ''/repo'', FsStat ''/repo/.git'',
          LogInfo ''Repository path OK''], Inr ())"
    by (simp add: validateRepo_def goodWorld_def)
  have c2: "validateConfig goodWorld ''bad.yaml''
       = ([LogInfo ''Validating configuration file...'', ParseConfig ''bad.yaml''],
          Inl (configFailure ''bad.yaml'' (ErrorObj (new_Error ''unknown key''))))"
    by (simp add: validateConfig_def goodWorld_def)
  show ?thesis
    using r1 r2 c2 r3 k3
      runPreflightChecks_first_failure [of goodWorld "''/missing''" "Some ''bad.yaml''"]
      runPreflightChecks_first_failure [of goodWorld "''/repo''" "Some ''bad.yaml''"]
      runPreflightChecks_first_failure [of noKeyWorld "''/repo''" None]
    by simp
qed

section \<open>Agent execution: how the pieces compose\<close>

lemma processMessageStream_events:
  "\<exists>rest. fst (processMessageStream w fullPrompt optModel optMax description)
            = heartbeat w description
              @ [Fetch (completionRequest w fullPrompt optModel optMax)] @ rest
          \<and> (\<forall>ev \<in> set rest. \<forall>s. ev \<noteq> LogInfo s)"
  by (auto simp: processMessageStream_def Let_def split: sum.splits)

lemma processMessageStream_success:
  assumes "snd (processMessageStream w fullPrompt optModel optMax description) = Inr m"
  shows "\<exists>resp completion.
           fetch w (completionRequest w fullPrompt optModel optMax) = Inr resp
           \<and> respOk resp \<and> respJson resp = Inr completion
           \<and> mlTurnCount m = 1 \<and> mlCost m = 0
           \<and> mlResult m = Some (orEmpty (firstContent completion))"
  using assms
  by (auto simp: processMessageStream_def Let_def split: sum.splits if_splits)

lemma runClaudePrompt_try_success:
  assumes "snd (runClaudePrompt_try w fullPrompt optModel optMax description) = Inr r"
  shows "\<exists>m. snd (processMessageStream w fullPrompt optModel optMax description) = Inr m
           \<and> success r \<and> turns r = Some (mlTurnCount m) \<and> cost r = mlCost m
           \<and> result r = (case mlResult m of None \<Rightarrow> Null | Some s \<Rightarrow> Value s)"
  using assms
  by (cases "processMessageStream w fullPrompt optModel optMax description")
     (auto simp: runClaudePrompt_try_def Let_def split: sum.splits if_splits)

lemma runClaudePrompt_with_key:
  assumes "truthy (OPENAI_API_KEY w)"
  shows "snd (runClaudePrompt w prmpt sourceDir ctxt description)
         = (case snd (runClaudePrompt_try w (composePrompt ctxt prmpt) (optionsModel w)
                        (optionsMaxOutputTokens w) description) of
              Inr r \<Rightarrow> Inr r
            | Inl (err, turnCount, totalCost) \<Rightarrow>
                Inr \<lparr>result = Undefined, success = False, duration = timerStop w, turns = None,
                     cost = totalCost, model = None, partialCost = None,
                     apiErrorDetected = None,
                     error = Some (error_message err),
                     errorType = Some (constructor_name err),
                     prompt = Some (take 100 (composePrompt ctxt prmpt) @ ''...''),
                     resRetryable = Some (isRetryableError w err)\<rparr>)"
  using assms
  by (cases "runClaudePrompt_try w (composePrompt ctxt prmpt) (optionsModel w)
                        (optionsMaxOutputTokens w) description")
     (auto simp: runClaudePrompt_def Let_def split: sum.splits prod.splits)

section \<open>Agent execution: the error boundary\<close>

text \<open>
  C1, as stated, fails: without an API key \<open>runClaudePrompt\<close> throws to its caller. The
  check stands before the \<open>try\<close> block, so the \<open>catch\<close> clause never sees its error.
\<close>

theorem runClaudePrompt_missing_key_thrown:
  "snd (runClaudePrompt noKeyWorld ''hello'' ''/repo'' [] ''recon'') = Inl missingKeyError"
  by (simp add: runClaudePrompt_def noKeyWorld_def goodWorld_def Let_def)

text \<open>
  C1, amended. With an API key present \<open>runClaudePrompt\<close> always returns a result, and
  every error thrown inside its \<open>try\<close> block (by the request, by a response that is not
  \<open>ok\<close>, by a body that does not parse, by the spending-cap safeguard) comes back as a
  failure result that carries the error's message, its constructor name and its
  retryability. Without a key the check that precedes the \<open>try\<close> block throws a
  config-category, non-retryable \<open>PentestError\<close> to the caller; nothing but the first log
  line has happened by then, so no request was sent.
\<close>

theorem runClaudePrompt_error_boundary:
  "(truthy (OPENAI_API_KEY w) \<longrightarrow>
      (\<exists>r. snd (runClaudePrompt w prmpt sourceDir ctxt description) = Inr r
         \<and> (\<forall>err turnCount totalCost.
               snd (runClaudePrompt_try w (composePrompt ctxt prmpt) (optionsModel w)
                      (optionsMaxOutputTokens w) description) = Inl (err, turnCount, totalCost)
               \<longrightarrow> success r = False \<and> error r = Some (error_message err)
                   \<and> errorType r = Some (constructor_name err)
                   \<and> resRetryable r = Some (isRetryableError w err))))
   \<and> (\<not> truthy (OPENAI_API_KEY w) \<longrightarrow>
        runClaudePrompt w prmpt sourceDir ctxt description
          = ([LogInfo (''Running Claude Code: '' @ description @ ''...'')], Inl missingKeyError)
        \<and> (\<exists>p. missingKeyError = PentestErr p \<and> category p = ''config''
                 \<and> retryable p = False))"
proof (intro conjI impI)
  assume k: "truthy (OPENAI_API_KEY w)"
  show "\<exists>r. snd (runClaudePrompt w prmpt sourceDir ctxt description) = Inr r
         \<and> (\<forall>err turnCount totalCost.
               snd (runClaudePrompt_try w (composePrompt ctxt prmpt) (optionsModel w)
                      (optionsMaxOutputTokens w) description) = Inl (err, turnCount, totalCost)
               \<longrightarrow> success r = False \<and> error r = Some (error_message err)
                   \<and> errorType r = Some (constructor_name err)
                   \<and> resRetryable r = Some (isRetryableError w err))"
    unfolding runClaudePrompt_with_key [OF k]
    by (cases "snd (runClaudePrompt_try w (composePrompt ctxt prmpt) (optionsModel w)
                      (optionsMaxOutputTokens w) description)") auto
next
  assume "\<not> truthy (OPENAI_API_KEY w)"
  then show "runClaudePrompt w prmpt sourceDir ctxt description
          = ([LogInfo (''Running Claude Code: '' @ description @ ''...'')], Inl missingKeyError)"
    by (simp add: runClaudePrompt_def Let_def)
next
  show "\<exists>p. missingKeyError = PentestErr p \<and> category p = ''config'' \<and> retryable p = False"
    by (simp add: missingKeyError_def)
qed

lemma offline_try:
  "snd (runClaudePrompt_try offlineWorld (composePrompt ''ctx'' ''hello'')
          (optionsModel offlineWorld) (optionsMaxOutputTokens offlineWorld) ''recon'')
   = Inl (fetchFailed, 0, 0)"
  by (simp add: runClaudePrompt_try_def processMessageStream_def offlineWorld_def goodWorld_def
        Let_def)

theorem runClaudePrompt_error_boundary_witness:
  "truthy (OPENAI_API_KEY offlineWorld)
   \<and> snd (runClaudePrompt_try offlineWorld (composePrompt ''ctx'' ''hello'')
          (optionsModel offlineWorld) (optionsMaxOutputTokens offlineWorld) ''recon'')
       = Inl (fetchFailed, 0, 0)
   \<and> (\<exists>r. snd (runClaudePrompt offlineWorld ''hello'' ''/repo'' ''ctx'' ''recon'') = Inr r
          \<and> success r = False \<and> error r = Some ''fetch failed''
          \<and> errorType r = Some ''TypeError'' \<and> resRetryable r = Some True)
   \<and> \<not> truthy (OPENAI_API_KEY noKeyWorld)
   \<and> runClaudePrompt noKeyWorld ''hello'' ''/repo'' ''ctx'' ''recon''
       = ([LogInfo ''Running Claude Code: recon...''], Inl missingKeyError)"
proof -
  have k: "truthy (OPENAI_API_KEY offlineWorld)"
    by (simp add: offlineWorld_def goodWorld_def)
  have n: "\<not> truthy (OPENAI_API_KEY noKeyWorld)"
    by (simp add: noKeyWorld_def goodWorld_def)
  have r: "isRetryableError offlineWorld fetchFailed"
    by (simp add: offlineWorld_def goodWorld_def fetchFailed_def)
  show ?thesis
    using k n r offline_try
      runClaudePrompt_error_boundary [of offlineWorld "''hello''" "''/repo''" "''ctx''" "''recon''"]
      runClaudePrompt_error_boundary [of noKeyWorld "''hello''" "''/repo''" "''ctx''" "''recon''"]
    by (auto simp: fetchFailed_def)
qed

section \<open>Agent execution: the spending-cap safeguard\<close>

lemma capped_stream:
  "snd (processMessageStream cappedWorld (composePrompt ''ctx'' ''hello'')
          (optionsModel cappedWorld) (optionsMaxOutputTokens cappedWorld) ''recon'')
   = Inr \<lparr>mlTurnCount = 1, mlResult = Some ''spending cap reached'',
          mlApiErrorDetected = False, mlCost = 0, mlModel = Some ''gpt-4.1''\<rparr>"
  by (simp add: processMessageStream_def cappedWorld_def goodWorld_def okResponse_def
        cappedCompletion_def firstContent_def optionsModel_def Let_def)

text \<open>
  C2. \<open>isSpendingCapBehavior\<close> holds exactly when the turn count is positive, the cost is
  zero and the text matches the pattern, so never at a positive cost. When it holds of the
  values that a completed request produced, the \<open>try\<close> block of \<open>runClaudePrompt\<close> raises
  a \<open>PentestError\<close> of category billing that is retryable, and the run returns a failure
  result, not a success.
\<close>

theorem spending_cap_raises_billing_error:
  "(isSpendingCapBehavior pat turnCount cst resultText
      \<longleftrightarrow> turnCount > 0 \<and> cst = 0 \<and> pat resultText)
   \<and> (cst > 0 \<longrightarrow> \<not> isSpendingCapBehavior pat turnCount cst resultText)
   \<and> (truthy (OPENAI_API_KEY w)
        \<and> snd (processMessageStream w (composePrompt ctxt prmpt) (optionsModel w)
                 (optionsMaxOutputTokens w) description) = Inr m
        \<and> isSpendingCapBehavior (spendingCapPattern w) (mlTurnCount m) (mlCost m)
             (case mlResult m of None \<Rightarrow> [] | Some s \<Rightarrow> s)
      \<longrightarrow> (\<exists>p. snd (runClaudePrompt_try w (composePrompt ctxt prmpt) (optionsModel w)
                       (optionsMaxOutputTokens w) description)
                   = Inl (PentestErr p, mlTurnCount m, mlCost m)
                \<and> category p = ''billing'' \<and> retryable p = True)
          \<and> (\<exists>r. snd (runClaudePrompt w prmpt sourceDir ctxt description) = Inr r
                \<and> success r = False \<and> errorType r = Some ''PentestError''))"
proof (intro conjI impI)
  show "isSpendingCapBehavior pat turnCount cst resultText
      \<longleftrightarrow> turnCount > 0 \<and> cst = 0 \<and> pat resultText"
    by (simp add: isSpendingCapBehavior_def)
next
  assume "cst > 0"
  then show "\<not> isSpendingCapBehavior pat turnCount cst resultText"
    by (simp add: isSpendingCapBehavior_def)
next
  assume h: "truthy (OPENAI_API_KEY w)
        \<and> snd (processMessageStream w (composePrompt ctxt prmpt) (optionsModel w)
                 (optionsMaxOutputTokens w) description) = Inr m
        \<and> isSpendingCapBehavior (spendingCapPattern w) (mlTurnCount m) (mlCost m)
             (case mlResult m of None \<Rightarrow> [] | Some s \<Rightarrow> s)"
  then have t: "snd (runClaudePrompt_try w (composePrompt ctxt prmpt) (optionsModel w)
                       (optionsMaxOutputTokens w) description)
                = Inl (spendingCapError (mlTurnCount m) (mlResult m), mlTurnCount m, mlCost m)"
    by (cases "processMessageStream w (composePrompt ctxt prmpt) (optionsModel w)
                 (optionsMaxOutputTokens w) description")
       (simp add: runClaudePrompt_try_def Let_def)
  then show "\<exists>p. snd (runClaudePrompt_try w (composePrompt ctxt prmpt) (optionsModel w)
                       (optionsMaxOutputTokens w) description)
                   = Inl (PentestErr p, mlTurnCount m, mlCost m)
                \<and> category p = ''billing'' \<and> retryable p = True"
    by (simp add: spendingCapError_def)
  from h have k: "truthy (OPENAI_API_KEY w)" by simp
  show "\<exists>r. snd (runClaudePrompt w prmpt sourceDir ctxt description) = Inr r
                \<and> success r = False \<and> errorType r = Some ''PentestError''"
    unfolding runClaudePrompt_with_key [OF k] t
    by (simp add: spendingCapError_def)
qed

theorem spending_cap_raises_billing_error_witness:
  "isSpendingCapBehavior (spendingCapPattern cappedWorld) 1 0 ''spending cap reached''
   \<and> \<not> isSpendingCapBehavior (spendingCapPattern cappedWorld) 1 (1 / 2) ''spending cap reached''
   \<and> truthy (OPENAI_API_KEY cappedWorld)
   \<and> (\<exists>p. snd (runClaudePrompt_try cappedWorld (composePrompt ''ctx'' ''hello'')
                  (optionsModel cappedWorld) (optionsMaxOutputTokens cappedWorld) ''recon'')
              = Inl (PentestErr p, 1, 0)
           \<and> category p = ''billing'' \<and> retryable p = True)
   \<and> (\<exists>r. snd (runClaudePrompt cappedWorld ''hello'' ''/repo'' ''ctx'' ''recon'') = Inr r
           \<and> success r = False \<and> errorType r = Some ''PentestError'')"
proof -
  have k: "truthy (OPENAI_API_KEY cappedWorld)"
    by (simp add: cappedWorld_def goodWorld_def)
  have p: "spendingCapPattern cappedWorld ''spending cap reached''"
    by (simp add: cappedWorld_def goodWorld_def)
  show ?thesis
    using k p capped_stream
      spending_cap_raises_billing_error
        [where pat = "spendingCapPattern cappedWorld" and turnCount = 1 and cst = 0
           and resultText = "''spending cap reached''" and w = cappedWorld
           and ctxt = "''ctx''" and prmpt = "''hello''" and description = "''recon''"
           and sourceDir = "''/repo''"
           and m = "\<lparr>mlTurnCount = 1, mlResult = Some ''spending cap reached'',
                     mlApiErrorDetected = False, mlCost = 0, mlModel = Some ''gpt-4.1''\<rparr>"]
      spending_cap_raises_billing_error
        [where pat = "spendingCapPattern cappedWorld" and turnCount = 1 and cst = "1 / 2"
           and resultText = "''spending cap reached''" and w = noKeyWorld]
    by (simp add: noKeyWorld_def)
qed

section \<open>Agent execution: the shape of a success\<close>

text \<open>
  C8. A successful result of \<open>runClaudePrompt\<close> has exactly one turn and cost zero, and its
  text is \<open>choices[0].message.content\<close> of the parsed response, or the empty string where
  that is absent.
\<close>

theorem runClaudePrompt_success_shape:
  assumes "snd (runClaudePrompt w prmpt sourceDir ctxt description) = Inr r"
    and "success r"
  shows "turns r = Some 1 \<and> cost r = 0
         \<and> (\<exists>resp completion.
               fetch w (completionRequest w (composePrompt ctxt prmpt) (optionsModel w)
                          (optionsMaxOutputTokens w)) = Inr resp
               \<and> respOk resp \<and> respJson resp = Inr completion
               \<and> result r = Value (case firstContent completion of Value s \<Rightarrow> s | _ \<Rightarrow> []))"
proof -
  have k: "truthy (OPENAI_API_KEY w)"
    using assms(1) by (auto simp: runClaudePrompt_def Let_def split: if_splits)
  have "snd (runClaudePrompt_try w (composePrompt ctxt prmpt) (optionsModel w)
               (optionsMaxOutputTokens w) description) = Inr r"
    using assms unfolding runClaudePrompt_with_key [OF k]
    by (auto split: sum.splits prod.splits)
  from runClaudePrompt_try_success [OF this]
  obtain m where m: "snd (processMessageStream w (composePrompt ctxt prmpt) (optionsModel w)
                            (optionsMaxOutputTokens w) description) = Inr m"
    and r: "turns r = Some (mlTurnCount m)" "cost r = mlCost m"
       "result r = (case mlResult m of None \<Rightarrow> Null | Some s \<Rightarrow> Value s)"
    by blast
  from processMessageStream_success [OF m]
  obtain resp completion where
    f: "fetch w (completionRequest w (composePrompt ctxt prmpt) (optionsModel w)
                  (optionsMaxOutputTokens w)) = Inr resp"
       "respOk resp" "respJson resp = Inr completion"
    and v: "mlTurnCount m = 1" "mlCost m = 0"
       "mlResult m = Some (orEmpty (firstContent completion))"
    by blast
  have o: "orEmpty (firstContent completion)
           = (case firstContent completion of Value s \<Rightarrow> s | _ \<Rightarrow> [])"
    by (cases "firstContent completion") simp_all
  show ?thesis
    using r f v o by simp
qed

theorem runClaudePrompt_success_shape_witness:
  "snd (runClaudePrompt goodWorld ''hello'' ''/repo'' [] ''recon'') = Inr successResult
   \<and> success successResult
   \<and> turns successResult = Some 1 \<and> cost successResult = 0
   \<and> firstContent pongCompletion = Value ''pong''
   \<and> result successResult = Value ''pong''"
proof -
  have s: "snd (runClaudePrompt goodWorld ''hello'' ''/repo'' [] ''recon'') = Inr successResult"
    by (simp add: runClaudePrompt_def runClaudePrompt_try_def processMessageStream_def
          goodWorld_def okResponse_def pongCompletion_def firstContent_def successResult_def
          isSpendingCapBehavior_def composePrompt_def optionsModel_def Let_def)
  have t: "success successResult"
    by (simp add: successResult_def)
  have c: "firstContent pongCompletion = Value ''pong''"
    by (simp add: firstContent_def pongCompletion_def)
  show ?thesis
    using s t c runClaudePrompt_success_shape [OF s t]
    by (simp add: successResult_def)
qed

section \<open>Agent execution: the heartbeat\<close>

text \<open>
  C9. The elapsed-time line is decided once, from the two clock readings that open
  \<open>processMessageStream\<close>: with the loader disabled and more than 30000 ms between them
  the line is logged, and otherwise not; in both cases the request comes next, and nothing
  is logged after it.
\<close>

theorem heartbeat_once_at_call_start:
  "\<exists>rest. fst (processMessageStream w fullPrompt optModel optMax description)
            = (if SHANNON_DISABLE_LOADER w = Some True \<and> dateNow w 1 - dateNow w 0 > 30000 then
                 [LogInfo (''['' @ show_int ((dateNow w 1 - timerStartTime w) div 1000) @ ''s] ''
                           @ description @ '' running...'')]
               else [])
              @ [Fetch (completionRequest w fullPrompt optModel optMax)] @ rest
          \<and> (\<forall>ev \<in> set rest. \<forall>s. ev \<noteq> LogInfo s)"
proof -
  have h: "(if SHANNON_DISABLE_LOADER w = Some True \<and> dateNow w 1 - dateNow w 0 > 30000 then
              [LogInfo (''['' @ show_int ((dateNow w 1 - timerStartTime w) div 1000) @ ''s] ''
                        @ description @ '' running...'')]
            else [])
           = heartbeat w description"
    by (simp add: heartbeat_def HEARTBEAT_INTERVAL_def Let_def)
  show ?thesis
    unfolding h by (rule processMessageStream_events)
qed

theorem heartbeat_once_at_call_start_witness:
  "SHANNON_DISABLE_LOADER slowClockWorld = Some True
   \<and> dateNow slowClockWorld 1 - dateNow slowClockWorld 0 > 30000
   \<and> fst (processMessageStream slowClockWorld ''hello'' ''gpt-4.1'' None ''recon'')
       = [LogInfo ''[39s] recon running...'',
          Fetch (completionRequest slowClockWorld ''hello'' ''gpt-4.1'' None),
          AuditLlmResponse 1 ''pong'']"
proof -
  have a: "SHANNON_DISABLE_LOADER slowClockWorld = Some True"
    "dateNow slowClockWorld 1 - dateNow slowClockWorld 0 > 30000"
    by (simp_all add: slowClockWorld_def goodWorld_def)
  have b: "show_int ((dateNow slowClockWorld 1 - timerStartTime slowClockWorld) div 1000) = ''39''"
    by (simp add: slowClockWorld_def goodWorld_def show_int_def show_nat.simps)
  have c: "fst (processMessageStream slowClockWorld ''hello'' ''gpt-4.1'' None ''recon'')
           = heartbeat slowClockWorld ''recon''
             @ [Fetch (completionRequest slowClockWorld ''hello'' ''gpt-4.1'' None),
                AuditLlmResponse 1 ''pong'']"
    by (simp add: processMessageStream_def slowClockWorld_def goodWorld_def okResponse_def
          pongCompletion_def firstContent_def Let_def)
  have d: "heartbeat slowClockWorld ''recon'' = [LogInfo ''[39s] recon running...'']"
    using a b by (simp add: heartbeat_def HEARTBEAT_INTERVAL_def Let_def)
  show ?thesis
    using a c d
      heartbeat_once_at_call_start [of slowClockWorld "''hello''" "''gpt-4.1''" None "''recon''"]
    by simp
qed

section \<open>Validation of agent output\<close>

text \<open>
  An unsuccessful result, and a successful one whose text is empty, \<open>null\<close> or
  \<open>undefined\<close>, are rejected alike, whatever the agent name: two log lines and the
  verdict \<open>False\<close>, with no look at the table.
\<close>

lemma validateAgentOutput_unsuccessful_or_empty:
  assumes "\<not> success res \<or> result res = Value [] \<or> result res = Null \<or> result res = Undefined"
  shows "validateAgentOutput w res agentName sourceDir
         = ([LogInfo (''Validating '' @ show_agent agentName @ '' agent output''),
             LogError ''Validation failed: Agent execution was unsuccessful''], False)"
  using assms by (auto simp: validateAgentOutput_def Let_def)

text \<open>
  A successful result with a non-empty text is accepted when the agent name is \<open>null\<close>
  or empty, or when indexing the table by it finds nothing, neither a registered validator
  nor an inherited member.
\<close>

lemma validateAgentOutput_no_property:
  assumes "success res" and "result res = Value s" and "s \<noteq> []"
    and "case agentName of None \<Rightarrow> True | Some a \<Rightarrow> a = [] \<or> indexValidators w a = None"
  shows "validateAgentOutput w res agentName sourceDir
         = ([LogInfo (''Validating '' @ show_agent agentName @ '' agent output''),
             LogWarn (''No validator found for agent '' @ [CHR 0x22] @ show_agent agentName
                      @ [CHR 0x22] @ '' - assuming success''),
             LogInfo ''Validation passed: Unknown agent with successful result''], True)"
  using assms by (auto simp: validateAgentOutput_def Let_def split: option.splits)

text \<open>
  C10. The second half of the claim fails on the code: \<open>__proto__\<close> has no registered
  validator, yet for it a successful result with the text \<open>pong\<close> is rejected. Indexing
  the table finds the inherited member, the call throws, and the \<open>catch\<close> clause answers
  \<open>False\<close>.
\<close>

theorem validateAgentOutput_inherited_name_rejected:
  "AGENT_VALIDATORS goodWorld ''__proto__'' = None
   \<and> success successResult \<and> result successResult = Value ''pong''
   \<and> validateAgentOutput goodWorld successResult (Some ''__proto__'') ''/repo''
       = ([LogInfo ''Validating __proto__ agent output'',
           LogInfo ''Using validator for agent: __proto__'',
           LogError ''Validation failed with error: validator is not a function''], False)"
  by (simp add: validateAgentOutput_def indexValidators_def Object_prototype_members_def
        callInherited_def goodWorld_def successResult_def Let_def)

theorem validateAgentOutput_inherited_name_rejected_witness:
  "snd (validateAgentOutput goodWorld successResult (Some ''__proto__'') ''/repo'') = False
   \<and> snd (validateAgentOutput goodWorld successResult (Some ''report'') ''/repo'') = True
   \<and> snd (validateAgentOutput goodWorld successResult None ''/repo'') = True"
proof -
  have a: "success successResult" "result successResult = Value ''pong''"
    by (simp_all add: successResult_def)
  have b: "indexValidators goodWorld ''report'' = None"
    by (simp add: indexValidators_def Object_prototype_members_def goodWorld_def)
  have c: "snd (validateAgentOutput goodWorld successResult (Some ''report'') ''/repo'') = True"
    using validateAgentOutput_no_property
        [where res = successResult and s = "''pong''" and agentName = "Some ''report''"
           and w = goodWorld and sourceDir = "''/repo''"]
      a b by simp
  have d: "snd (validateAgentOutput goodWorld successResult None ''/repo'') = True"
    using validateAgentOutput_no_property
        [where res = successResult and s = "''pong''" and agentName = None
           and w = goodWorld and sourceDir = "''/repo''"]
      a by simp
  show ?thesis
    using c d validateAgentOutput_inherited_name_rejected by simp
qed

end
